theory Spec2Isabelle
  imports Main
begin

section \<open>Values, responses and errors\<close>

text \<open>
  A \<^verbatim>\<open>Ref\<close> object of the library: the only thing the client reads from it is
  its \<^verbatim>\<open>value\<close> attribute, a string.
\<close>

datatype ref = Ref (ref_value: string)

text \<open>
  The Python values that travel through the client: request data, query parameter
  values and parsed response bodies. A dict is an association list in iteration order;
  its keys are distinct.
\<close>

datatype pyval =
    PNone
  | PBool bool
  | PInt int
  | PStr string
  | PList "pyval list"
  | PDict "(string \<times> pyval) list"
  | PRef ref

text \<open>
  The exceptions that can leave the client. The first eight are raised by
  \<^verbatim>\<open>_handle_response\<close>, each constructed from the parsed body alone;
  \<^verbatim>\<open>FaunaError\<close> is raised by \<^verbatim>\<open>_parse_secret\<close> with a message.
  The others are Python's own (\<^verbatim>\<open>KeyError\<close>, \<^verbatim>\<open>TypeError\<close>), the JSON
  codec's (\<^verbatim>\<open>ValueError\<close>) and the transport's (\<^verbatim>\<open>RequestException\<close>).
\<close>

datatype error =
    BadRequest pyval
  | Unauthorized pyval
  | PermissionDenied pyval
  | NotFound pyval
  | MethodNotAllowed pyval
  | InternalError pyval
  | UnavailableError pyval
  | FaunaHTTPError pyval
  | FaunaError string
  | KeyError string
  | TypeError
  | ValueError string
  | RequestException string

text \<open>
  Modelled from the spec: the module \<^verbatim>\<open>faunadb/errors.py\<close>, which declares the
  exception classes, is not among the sources. The library's error taxonomy is the list
  of section 7 of the specification: BadRequest, Unauthorized, PermissionDenied, NotFound,
  MethodNotAllowed, InternalError, UnavailableError, the generic HTTP error, and the
  client-side configuration error (\<^verbatim>\<open>FaunaError\<close> in the constructor's code).
\<close>

fun taxonomy_error :: "error \<Rightarrow> bool" where
  "taxonomy_error (BadRequest b) = True"
| "taxonomy_error (Unauthorized b) = True"
| "taxonomy_error (PermissionDenied b) = True"
| "taxonomy_error (NotFound b) = True"
| "taxonomy_error (MethodNotAllowed b) = True"
| "taxonomy_error (InternalError b) = True"
| "taxonomy_error (UnavailableError b) = True"
| "taxonomy_error (FaunaHTTPError b) = True"
| "taxonomy_error (FaunaError m) = True"
| "taxonomy_error (KeyError k) = False"
| "taxonomy_error TypeError = False"
| "taxonomy_error (ValueError m) = False"
| "taxonomy_error (RequestException m) = False"

record response =
  status_code :: int
  headers :: "(string \<times> string) list"
  response_text :: string

subsection \<open>Status codes of the \<^verbatim>\<open>requests\<close> library\<close>

definition codes_bad_request :: int where "codes_bad_request = 400"
definition codes_unauthorized :: int where "codes_unauthorized = 401"
definition codes_forbidden :: int where "codes_forbidden = 403"
definition codes_not_found :: int where "codes_not_found = 404"
definition codes_method_not_allowed :: int where "codes_method_not_allowed = 405"
definition codes_internal_server_error :: int where "codes_internal_server_error = 500"
definition codes_unavailable :: int where "codes_unavailable = 503"

section \<open>Strings\<close>

text \<open>
  \<^verbatim>\<open>s.split(sep)\<close> and \<^verbatim>\<open>s.split(sep, 1)\<close> for a separator of one
  character (the client only splits at a newline and at a colon), and
  \<^verbatim>\<open>sep.join(parts)\<close>.
\<close>

fun split_str :: "char \<Rightarrow> string \<Rightarrow> string list" where
  "split_str sep [] = [[]]"
| "split_str sep (c # cs) =
     (if c = sep then [] # split_str sep cs
      else (case split_str sep cs of [] \<Rightarrow> [[c]] | h # t \<Rightarrow> (c # h) # t))"

fun split1 :: "char \<Rightarrow> string \<Rightarrow> string list" where
  "split1 sep [] = [[]]"
| "split1 sep (c # cs) =
     (if c = sep then [[], cs]
      else (case split1 sep cs of [] \<Rightarrow> [[c]] | h # t \<Rightarrow> (c # h) # t))"

fun join :: "string \<Rightarrow> string list \<Rightarrow> string" where
  "join sep [] = []"
| "join sep [x] = x"
| "join sep (x # y # ys) = x @ sep @ join sep (y # ys)"

text \<open>The decimal rendering of an integer, as \<^verbatim>\<open>%s\<close> and \<^verbatim>\<open>%i\<close> print it.\<close>

fun show_nat :: "nat \<Rightarrow> string" where
  "show_nat n =
     (if n < 10 then [''0123456789'' ! n]
      else show_nat (n div 10) @ [''0123456789'' ! (n mod 10)])"

declare show_nat.simps [simp del]

definition show_int :: "int \<Rightarrow> string" where
  "show_int i = (if i < 0 then CHR ''-'' # show_nat (nat (- i)) else show_nat (nat i))"

text \<open>Lower case of an ASCII letter: header names are compared without case.\<close>

definition lower :: "char \<Rightarrow> char" where
  "lower c =
     (let n = (of_char c :: nat) in if 65 \<le> n \<and> n \<le> 90 then char_of (n + 32) else c)"

section \<open>The client and its collaborators\<close>

datatype logger = Logger (logger_name: string)

text \<open>
  The \<^verbatim>\<open>requests\<close> session of a client: its credentials, the header entries the
  constructor sets on top of the transport's own defaults, and the read timeout.
\<close>

record session =
  auth :: "(string \<times> string) option"
  session_headers :: "(string \<times> string) list"
  session_timeout :: pyval

record client =
  logger :: "logger option"
  domain :: string
  scheme :: string
  port :: int
  session :: session
  base_url :: string

text \<open>
  The \<^verbatim>\<open>Request\<close> object that \<^verbatim>\<open>_execute_without_logging\<close> builds:
  \<^verbatim>\<open>Request(action, url, params=query, data=to_json(data))\<close>.
\<close>

record request =
  req_method :: string
  req_url :: string
  req_params :: "(string \<times> pyval) list option"
  req_data :: string

text \<open>
  What the client calls and does not define: the environment variable
  \<^verbatim>\<open>FAUNA_DEBUG\<close>, the JSON codec (\<^verbatim>\<open>to_json(value, pretty)\<close>, and
  \<^verbatim>\<open>parse_json\<close>, which raises on text that is no JSON), the transport
  (\<^verbatim>\<open>session.send(session.prepare_request(req))\<close>, which raises when the round
  trip fails), Python's rendering of a value under \<^verbatim>\<open>%s\<close>, and the clock:
  \<^verbatim>\<open>latency_ms\<close> is \<^verbatim>\<open>int(real_time * 1000)\<close> for the two readings of
  \<^verbatim>\<open>time()\<close> around the round trip. The transport and the parser return or raise.
  The encoder, the rendering and the loggers return in this record; the exceptions they
  may raise are written out further down, in a record of their own.
\<close>

record env =
  FAUNA_DEBUG :: "string option"
  to_json :: "pyval \<Rightarrow> bool \<Rightarrow> string"
  parse_json :: "string \<Rightarrow> error + pyval"
  session_send :: "session \<Rightarrow> request \<Rightarrow> error + response"
  py_str :: "pyval \<Rightarrow> string"
  latency_ms :: int

text \<open>
  The effects of a call: the requests handed to the transport, and the lines handed to
  each logger, both in order.
\<close>

record world =
  sent :: "request list"
  logged :: "(logger \<times> string) list"

text \<open>
  The module's \<^verbatim>\<open>_debug_logger\<close>: a logger named after the module when
  \<^verbatim>\<open>FAUNA_DEBUG\<close> is set to a non-empty string, \<^verbatim>\<open>None\<close> otherwise.
\<close>

definition debug_logger :: "env \<Rightarrow> logger option" where
  "debug_logger env =
     (case FAUNA_DEBUG env of
        None \<Rightarrow> None
      | Some v \<Rightarrow> if v = [] then None else Some (Logger ''faunadb.client''))"

section \<open>\<^verbatim>\<open>Client._parse_secret\<close> and the constructor\<close>

text \<open>
  A secret is a tuple of strings or a string. The credentials returned are a tuple of two
  entries, a pair here.
\<close>

datatype secret = SecretTuple "string list" | SecretStr string

definition parse_secret :: "secret \<Rightarrow> error + string \<times> string" where
  "parse_secret secret =
     (case secret of
        SecretTuple t \<Rightarrow>
          if length t \<noteq> 2 then Inl (FaunaError ''Secret tuple must have exactly two entries'')
          else Inr (t ! 0, t ! 1)
      | SecretStr s \<Rightarrow>
          (let pair = split1 (CHR '':'') s;
               pair = (if length pair = 1 then pair @ [[]] else pair)
           in Inr (pair ! 0, pair ! 1)))"

definition init ::
  "logger option \<Rightarrow> string \<Rightarrow> string \<Rightarrow> int option \<Rightarrow> pyval \<Rightarrow> secret option
     \<Rightarrow> error + client" where
  "init logger_arg domain_arg scheme_arg port_arg timeout_arg secret_arg =
     (let p = (case port_arg of
                 None \<Rightarrow> (if scheme_arg = ''https'' then 443 else 80)
               | Some given \<Rightarrow> given);
          hs = [(''Accept-Encoding'', ''gzip''),
                (''Content-Type'', ''application/json;charset=utf-8'')]
      in case (case secret_arg of
                 None \<Rightarrow> Inr None
               | Some s \<Rightarrow> (case parse_secret s of Inl e \<Rightarrow> Inl e | Inr a \<Rightarrow> Inr (Some a))) of
           Inl e \<Rightarrow> Inl e
         | Inr a \<Rightarrow>
             Inr \<lparr>logger = logger_arg, domain = domain_arg, scheme = scheme_arg, port = p,
                  session = \<lparr>auth = a, session_headers = hs, session_timeout = timeout_arg\<rparr>,
                  base_url = scheme_arg @ ''://'' @ domain_arg @ '':'' @ show_int p\<rparr>)"

section \<open>\<^verbatim>\<open>Client._handle_response\<close>\<close>

text \<open>
  \<^verbatim>\<open>response_dict["resource"]\<close>: a dict without the key raises
  \<^verbatim>\<open>KeyError\<close>; a value that is no dict cannot be indexed by a string and raises
  \<^verbatim>\<open>TypeError\<close>.
\<close>

fun getitem :: "pyval \<Rightarrow> string \<Rightarrow> error + pyval" where
  "getitem (PDict d) k = (case map_of d k of None \<Rightarrow> Inl (KeyError k) | Some v \<Rightarrow> Inr v)"
| "getitem _ k = Inl TypeError"

definition handle_response :: "response \<Rightarrow> pyval \<Rightarrow> error + pyval" where
  "handle_response response response_dict =
     (let code = status_code response in
      if 200 \<le> code \<and> code \<le> 299 then getitem response_dict ''resource''
      else if code = codes_bad_request then Inl (BadRequest response_dict)
      else if code = codes_unauthorized then Inl (Unauthorized response_dict)
      else if code = codes_forbidden then Inl (PermissionDenied response_dict)
      else if code = codes_not_found then Inl (NotFound response_dict)
      else if code = codes_method_not_allowed then Inl (MethodNotAllowed response_dict)
      else if code = codes_internal_server_error then Inl (InternalError response_dict)
      else if code = codes_unavailable then Inl (UnavailableError response_dict)
      else Inl (FaunaHTTPError response_dict))"

section \<open>Logging\<close>

text \<open>
  \<^verbatim>\<open>Client._log\<close>: the line, indented when asked, goes to the module's debug
  logger and to the client's logger, whichever exist.
\<close>

definition log :: "env \<Rightarrow> client \<Rightarrow> bool \<Rightarrow> string \<Rightarrow> world \<Rightarrow> world" where
  "log env c indented logged0 w =
     (let indent_str = ''  '';
          line = (if indented
                  then indent_str @ join (CHR 0x0A # indent_str) (split_str (CHR 0x0A) logged0)
                  else logged0);
          w1 = (case debug_logger env of
                  None \<Rightarrow> w
                | Some l \<Rightarrow> w\<lparr>logged := logged w @ [(l, line)]\<rparr>)
      in case logger c of
           None \<Rightarrow> w1
         | Some l \<Rightarrow> w1\<lparr>logged := logged w1 @ [(l, line)]\<rparr>)"

text \<open>\<^verbatim>\<open>Client._query_string_for_logging\<close>.\<close>

definition query_string_for_logging :: "env \<Rightarrow> (string \<times> pyval) list option \<Rightarrow> string" where
  "query_string_for_logging env query_arg =
     (case query_arg of
        None \<Rightarrow> []
      | Some q \<Rightarrow>
          if q = [] then []
          else ''?'' @ join ''&'' (map (\<lambda>(k, v). k @ ''='' @ py_str env v) q))"

text \<open>
  Python's truth value of the request data (\<^verbatim>\<open>if data:\<close>); an object such as a
  \<^verbatim>\<open>Ref\<close> counts as true. It decides a log line only.
\<close>

fun truthy :: "pyval \<Rightarrow> bool" where
  "truthy PNone = False"
| "truthy (PBool b) = b"
| "truthy (PInt i) = (i \<noteq> 0)"
| "truthy (PStr s) = (s \<noteq> [])"
| "truthy (PList xs) = (xs \<noteq> [])"
| "truthy (PDict d) = (d \<noteq> [])"
| "truthy (PRef r) = True"

text \<open>
  \<^verbatim>\<open>response.headers.get(name, default)\<close> on the case-insensitive dict of the
  response's headers.
\<close>

definition headers_get :: "(string \<times> string) list \<Rightarrow> string \<Rightarrow> string \<Rightarrow> string" where
  "headers_get hs name dflt =
     (case map_of (map (\<lambda>(k, v). (map lower k, v)) hs) (map lower name) of
        None \<Rightarrow> dflt
      | Some v \<Rightarrow> v)"

section \<open>\<^verbatim>\<open>Client._execute\<close>\<close>

text \<open>
  The path argument: a string or a \<^verbatim>\<open>Ref\<close>. The two definitions of this
  section are \<^verbatim>\<open>_execute_without_logging\<close> and \<^verbatim>\<open>_execute\<close> as they
  run when the encoder, the rendering and the loggers return; they fix the request that a
  call hands to the transport.
\<close>

datatype path = Str string | RefPath ref

definition execute_without_logging ::
  "env \<Rightarrow> client \<Rightarrow> world \<Rightarrow> string \<Rightarrow> string \<Rightarrow> pyval \<Rightarrow> (string \<times> pyval) list option
     \<Rightarrow> (error + response) \<times> world" where
  "execute_without_logging env c w action path_arg data query_arg =
     (let url = base_url c @ ''/'' @ path_arg;
          req = \<lparr>req_method = action, req_url = url, req_params = query_arg,
                 req_data = to_json env data False\<rparr>
      in (session_send env (session c) req, w\<lparr>sent := sent w @ [req]\<rparr>))"

definition execute ::
  "env \<Rightarrow> client \<Rightarrow> world \<Rightarrow> string \<Rightarrow> path \<Rightarrow> pyval \<Rightarrow> (string \<times> pyval) list option
     \<Rightarrow> (error + pyval) \<times> world" where
  "execute env c w action path0 data query0 =
     (let path_arg = (case path0 of RefPath r \<Rightarrow> ref_value r | Str s \<Rightarrow> s);
          query_arg = (case query0 of
                         None \<Rightarrow> None
                       | Some q \<Rightarrow> Some (filter (\<lambda>(k, v). v \<noteq> PNone) q))
      in
      if logger c \<noteq> None \<or> debug_logger env \<noteq> None then
        (let w1 = log env c False
                    (''Fauna '' @ action @ '' /'' @ path_arg
                       @ query_string_for_logging env query_arg) w;
             w2 = (case auth (session c) of
                     None \<Rightarrow> log env c True ''Credentials: None'' w1
                   | Some (u, p) \<Rightarrow> log env c True (''Credentials: '' @ u @ '':'' @ p) w1);
             w3 = (if truthy data
                   then log env c True (''Request JSON: '' @ to_json env data True) w2
                   else w2)
         in case execute_without_logging env c w3 action path_arg data query_arg of
              (Inl e, w4) \<Rightarrow> (Inl e, w4)
            | (Inr response, w4) \<Rightarrow>
                (let headers_json =
                       to_json env (PDict (map (\<lambda>(k, v). (k, PStr v)) (headers response))) True
                 in case parse_json env (response_text response) of
                      Inl e \<Rightarrow> (Inl e, w4)
                    | Inr response_dict \<Rightarrow>
                        (let response_json = to_json env response_dict True;
                             w5 = log env c True (''Response headers: '' @ headers_json) w4;
                             w6 = log env c True (''Response JSON: '' @ response_json) w5;
                             w7 = log env c True
                                    (''Response ('' @ show_int (status_code response)
                                       @ ''): API processing ''
                                       @ headers_get (headers response)
                                           ''X-HTTP-Request-Processing-Time'' ''N/A''
                                       @ ''ms, network latency '' @ show_int (latency_ms env)
                                       @ ''ms'') w6
                         in (handle_response response response_dict, w7))))
      else
        (case execute_without_logging env c w action path_arg data query_arg of
           (Inl e, w1) \<Rightarrow> (Inl e, w1)
         | (Inr response, w1) \<Rightarrow>
             (case parse_json env (response_text response) of
                Inl e \<Rightarrow> (Inl e, w1)
              | Inr response_dict \<Rightarrow> (handle_response response response_dict, w1))))"

section \<open>The public methods\<close>


definition post :: "env \<Rightarrow> client \<Rightarrow> world \<Rightarrow> path \<Rightarrow> pyval \<Rightarrow> (error + pyval) \<times> world" where
  "post env c w path_arg data = execute env c w ''POST'' path_arg data None"

definition put :: "env \<Rightarrow> client \<Rightarrow> world \<Rightarrow> path \<Rightarrow> pyval \<Rightarrow> (error + pyval) \<times> world" where
  "put env c w path_arg data = execute env c w ''PUT'' path_arg data None"

definition patch :: "env \<Rightarrow> client \<Rightarrow> world \<Rightarrow> path \<Rightarrow> pyval \<Rightarrow> (error + pyval) \<times> world" where
  "patch env c w path_arg data = execute env c w ''PATCH'' path_arg data None"

definition delete :: "env \<Rightarrow> client \<Rightarrow> world \<Rightarrow> path \<Rightarrow> pyval \<Rightarrow> (error + pyval) \<times> world" where
  "delete env c w path_arg data = execute env c w ''DELETE'' path_arg data None"

definition query :: "env \<Rightarrow> client \<Rightarrow> world \<Rightarrow> pyval \<Rightarrow> (error + pyval) \<times> world" where
  "query env c w expression = execute env c w ''POST'' (Str []) expression None"


section \<open>\<^verbatim>\<open>Client._execute\<close> with collaborators that raise\<close>

text \<open>
  The calls that only the logging branch of \<^verbatim>\<open>_execute\<close> makes are not guarded
  in the source: \<^verbatim>\<open>to_json(..., pretty=True)\<close> on the request data, the response
  headers and the parsed body, the \<^verbatim>\<open>%s\<close> rendering of the query values, and
  \<^verbatim>\<open>debug\<close> on the module's logger and on the logger the caller supplied. An
  exception raised by one of them leaves \<^verbatim>\<open>_execute\<close>. The record below says
  which calls of these collaborators raise, and what: \<^verbatim>\<open>None\<close> where the call
  returns, with the value the environment gives.
\<close>

record faults =
  to_json_raises :: "pyval \<Rightarrow> bool \<Rightarrow> error option"
  py_str_raises :: "pyval \<Rightarrow> error option"
  debug_raises :: "logger \<Rightarrow> string \<Rightarrow> error option"

text \<open>\<^verbatim>\<open>to_json(value, pretty)\<close>, raising or returning.\<close>

definition to_json_call :: "env \<Rightarrow> faults \<Rightarrow> pyval \<Rightarrow> bool \<Rightarrow> error + string" where
  "to_json_call env f v pretty =
     (case to_json_raises f v pretty of
        Some e \<Rightarrow> Inl e
      | None \<Rightarrow> Inr (to_json env v pretty))"

text \<open>
  \<^verbatim>\<open>logger.debug(line)\<close>, raising or returning; the line counts as logged when
  the call returns.
\<close>

definition debug_call :: "faults \<Rightarrow> logger \<Rightarrow> string \<Rightarrow> world \<Rightarrow> (error + unit) \<times> world" where
  "debug_call f l line w =
     (case debug_raises f l line of
        Some e \<Rightarrow> (Inl e, w)
      | None \<Rightarrow> (Inr (), w\<lparr>logged := logged w @ [(l, line)]\<rparr>))"

text \<open>Sequencing: an exception ends the run, a return hands value and world on.\<close>

definition then_do ::
  "(error + 'a) \<times> world \<Rightarrow> ('a \<Rightarrow> world \<Rightarrow> (error + 'b) \<times> world) \<Rightarrow> (error + 'b) \<times> world" where
  "then_do m k = (case m of (Inl e, w) \<Rightarrow> (Inl e, w) | (Inr x, w) \<Rightarrow> k x w)"

text \<open>
  \<^verbatim>\<open>Client._log\<close> with its two unguarded calls: when the debug logger raises, the
  client's logger is not reached.
\<close>

definition log_raising ::
  "env \<Rightarrow> faults \<Rightarrow> client \<Rightarrow> bool \<Rightarrow> string \<Rightarrow> world \<Rightarrow> (error + unit) \<times> world" where
  "log_raising env f c indented logged0 w =
     (let indent_str = ''  '';
          line = (if indented
                  then indent_str @ join (CHR 0x0A # indent_str) (split_str (CHR 0x0A) logged0)
                  else logged0)
      in then_do (case debug_logger env of
                    None \<Rightarrow> (Inr (), w)
                  | Some l \<Rightarrow> debug_call f l line w)
           (\<lambda>_ w1. case logger c of
                      None \<Rightarrow> (Inr (), w1)
                    | Some l \<Rightarrow> debug_call f l line w1))"

text \<open>
  \<^verbatim>\<open>Client._query_string_for_logging\<close>: the generator renders the items in
  order, and the first rendering that raises ends it.
\<close>

fun render_query :: "env \<Rightarrow> faults \<Rightarrow> (string \<times> pyval) list \<Rightarrow> error + string list" where
  "render_query env f [] = Inr []"
| "render_query env f ((k, v) # kvs) =
     (case py_str_raises f v of
        Some e \<Rightarrow> Inl e
      | None \<Rightarrow>
          (case render_query env f kvs of
             Inl e \<Rightarrow> Inl e
           | Inr rs \<Rightarrow> Inr ((k @ ''='' @ py_str env v) # rs)))"

definition query_string_for_logging_raising ::
  "env \<Rightarrow> faults \<Rightarrow> (string \<times> pyval) list option \<Rightarrow> error + string" where
  "query_string_for_logging_raising env f query_arg =
     (case query_arg of
        None \<Rightarrow> Inr []
      | Some q \<Rightarrow>
          if q = [] then Inr []
          else (case render_query env f q of
                  Inl e \<Rightarrow> Inl e
                | Inr rs \<Rightarrow> Inr (''?'' @ join ''&'' rs)))"

text \<open>
  \<^verbatim>\<open>Client._execute_without_logging\<close>: \<^verbatim>\<open>to_json(data)\<close> is evaluated
  before the request is built, so an encoder that raises leaves nothing sent.
\<close>

definition execute_without_logging_raising ::
  "env \<Rightarrow> faults \<Rightarrow> client \<Rightarrow> world \<Rightarrow> string \<Rightarrow> string \<Rightarrow> pyval
     \<Rightarrow> (string \<times> pyval) list option \<Rightarrow> (error + response) \<times> world" where
  "execute_without_logging_raising env f c w action path_arg data query_arg =
     (let url = base_url c @ ''/'' @ path_arg
      in case to_json_call env f data False of
           Inl e \<Rightarrow> (Inl e, w)
         | Inr body \<Rightarrow>
             (let req = \<lparr>req_method = action, req_url = url, req_params = query_arg,
                         req_data = body\<rparr>
              in (session_send env (session c) req, w\<lparr>sent := sent w @ [req]\<rparr>)))"

text \<open>
  \<^verbatim>\<open>Client._execute\<close>, statement by statement, with every call that may raise
  written out. It is \<^const>\<open>execute\<close> when no collaborator raises
  (\<open>execute_raising_no_faults\<close> below).
\<close>

definition execute_raising ::
  "env \<Rightarrow> faults \<Rightarrow> client \<Rightarrow> world \<Rightarrow> string \<Rightarrow> path \<Rightarrow> pyval
     \<Rightarrow> (string \<times> pyval) list option \<Rightarrow> (error + pyval) \<times> world" where
  "execute_raising env f c w action path0 data query0 =
     (let path_arg = (case path0 of RefPath r \<Rightarrow> ref_value r | Str s \<Rightarrow> s);
          query_arg = (case query0 of
                         None \<Rightarrow> None
                       | Some q \<Rightarrow> Some (filter (\<lambda>(k, v). v \<noteq> PNone) q))
      in
      if logger c \<noteq> None \<or> debug_logger env \<noteq> None then
        (case query_string_for_logging_raising env f query_arg of
           Inl e \<Rightarrow> (Inl e, w)
         | Inr qs \<Rightarrow>
        then_do (log_raising env f c False (''Fauna '' @ action @ '' /'' @ path_arg @ qs) w)
          (\<lambda>_ w1.
        then_do (case auth (session c) of
                   None \<Rightarrow> log_raising env f c True ''Credentials: None'' w1
                 | Some (u, p) \<Rightarrow>
                     log_raising env f c True (''Credentials: '' @ u @ '':'' @ p) w1)
          (\<lambda>_ w2.
        then_do (if truthy data
                 then (case to_json_call env f data True of
                         Inl e \<Rightarrow> (Inl e, w2)
                       | Inr request_json \<Rightarrow>
                           log_raising env f c True (''Request JSON: '' @ request_json) w2)
                 else (Inr (), w2))
          (\<lambda>_ w3.
        then_do (execute_without_logging_raising env f c w3 action path_arg data query_arg)
          (\<lambda>response w4.
             case to_json_call env f
                    (PDict (map (\<lambda>(k, v). (k, PStr v)) (headers response))) True of
               Inl e \<Rightarrow> (Inl e, w4)
             | Inr headers_json \<Rightarrow>
             (case parse_json env (response_text response) of
                Inl e \<Rightarrow> (Inl e, w4)
              | Inr response_dict \<Rightarrow>
             (case to_json_call env f response_dict True of
                Inl e \<Rightarrow> (Inl e, w4)
              | Inr response_json \<Rightarrow>
        then_do (log_raising env f c True (''Response headers: '' @ headers_json) w4)
          (\<lambda>_ w5.
        then_do (log_raising env f c True (''Response JSON: '' @ response_json) w5)
          (\<lambda>_ w6.
        then_do (log_raising env f c True
                   (''Response ('' @ show_int (status_code response)
                      @ ''): API processing ''
                      @ headers_get (headers response)
                          ''X-HTTP-Request-Processing-Time'' ''N/A''
                      @ ''ms, network latency '' @ show_int (latency_ms env)
                      @ ''ms'') w6)
          (\<lambda>_ w7. (handle_response response response_dict, w7)))))))))))
      else
        then_do (execute_without_logging_raising env f c w action path_arg data query_arg)
          (\<lambda>response w1.
             case parse_json env (response_text response) of
               Inl e \<Rightarrow> (Inl e, w1)
             | Inr response_dict \<Rightarrow> (handle_response response response_dict, w1)))"

section \<open>An environment and a client to run the definitions on\<close>

text \<open>
  A server that answers every request with status 200 and the body text \<^verbatim>\<open>pong\<close>,
  a codec that parses every text into a dict holding that text as its resource, and the
  client the constructor builds from its defaults.
\<close>

definition example_env :: env where
  "example_env =
     \<lparr>FAUNA_DEBUG = None,
      to_json = (\<lambda>v pretty. ''null''),
      parse_json = (\<lambda>s. Inr (PDict [(''resource'', PStr s)])),
      session_send = (\<lambda>s r. Inr \<lparr>status_code = 200, headers = [], response_text = ''pong''\<rparr>),
      py_str = (\<lambda>v. ''x''),
      latency_ms = 0\<rparr>"

definition example_client :: client where
  "example_client =
     \<lparr>logger = None, domain = ''rest.faunadb.com'', scheme = ''https'', port = 443,
      session = \<lparr>auth = None,
                 session_headers = [(''Accept-Encoding'', ''gzip''),
                                    (''Content-Type'', ''application/json;charset=utf-8'')],
                 session_timeout = PInt 60\<rparr>,
      base_url = ''https://rest.faunadb.com:443''\<rparr>"

definition empty_world :: world where
  "empty_world = \<lparr>sent = [], logged = []\<rparr>"

text \<open>
  Collaborators that never raise; a caller's logger named \<^verbatim>\<open>app\<close> whose
  \<^verbatim>\<open>debug\<close> raises; and an encoder that raises on a response header holding a
  byte that is no UTF-8, with a server that sends such a header.
\<close>

definition no_faults :: faults where
  "no_faults = \<lparr>to_json_raises = (\<lambda>v pretty. None), py_str_raises = (\<lambda>v. None),
                debug_raises = (\<lambda>l line. None)\<rparr>"

definition broken_logger :: faults where
  "broken_logger =
     \<lparr>to_json_raises = (\<lambda>v pretty. None), py_str_raises = (\<lambda>v. None),
      debug_raises = (\<lambda>l line. if l = Logger ''app'' then Some (ValueError ''closed file'')
                                else None)\<rparr>"

definition binary_header_faults :: faults where
  "binary_header_faults =
     \<lparr>to_json_raises = (\<lambda>v pretty. if v = PDict [(''X-Trace'', PStr [CHR 0xFF])]
                                     then Some (ValueError ''not utf-8'') else None),
      py_str_raises = (\<lambda>v. None),
      debug_raises = (\<lambda>l line. None)\<rparr>"

definition binary_header_env :: env where
  "binary_header_env =
     example_env\<lparr>session_send :=
       (\<lambda>s r. Inr \<lparr>status_code = 200, headers = [(''X-Trace'', [CHR 0xFF])],
                    response_text = ''pong''\<rparr>)\<rparr>"

section \<open>Facts about the helpers\<close>

lemmas codes_defs =
  codes_bad_request_def codes_unauthorized_def codes_forbidden_def codes_not_found_def
  codes_method_not_allowed_def codes_internal_server_error_def codes_unavailable_def

lemma split1_no_sep: "sep \<notin> set s \<Longrightarrow> split1 sep s = [s]"
  by (induction s) auto

lemma split1_first: "sep \<notin> set u \<Longrightarrow> split1 sep (u @ sep # rest) = [u, rest]"
  by (induction u) auto

lemma show_int_443: "show_int 443 = ''443''"
  by (simp add: show_int_def show_nat.simps)

lemma sent_log: "sent (log env c i m w) = sent w"
  by (simp add: log_def Let_def split: option.splits)

text \<open>
  Whatever the loggers, a call hands exactly one request to the transport, built from the
  normalised path and the filtered query.
\<close>

lemma execute_sent:
  "sent (snd (execute env c w a p dt q)) =
     sent w @ [\<lparr>req_method = a,
                req_url = base_url c @ ''/''
                            @ (case p of RefPath r \<Rightarrow> ref_value r | Str s \<Rightarrow> s),
                req_params = (case q of
                                None \<Rightarrow> None
                              | Some kv \<Rightarrow> Some (filter (\<lambda>(k, v). v \<noteq> PNone) kv)),
                req_data = to_json env dt False\<rparr>]"
  by (simp add: execute_def execute_without_logging_def sent_log Let_def
      split: sum.splits option.splits prod.splits)

text \<open>
  The outcome of a call is the outcome of the transport, then of the parser, then of
  \<^verbatim>\<open>_handle_response\<close>, in both branches of \<^verbatim>\<open>_execute\<close>.
\<close>

lemma execute_result:
  "fst (execute env c w a p dt q) =
     (case session_send env (session c)
             \<lparr>req_method = a,
              req_url = base_url c @ ''/''
                          @ (case p of RefPath r \<Rightarrow> ref_value r | Str s \<Rightarrow> s),
              req_params = (case q of
                              None \<Rightarrow> None
                            | Some kv \<Rightarrow> Some (filter (\<lambda>(k, v). v \<noteq> PNone) kv)),
              req_data = to_json env dt False\<rparr> of
        Inl e \<Rightarrow> Inl e
      | Inr response \<Rightarrow>
          (case parse_json env (response_text response) of
             Inl e \<Rightarrow> Inl e
           | Inr response_dict \<Rightarrow> handle_response response response_dict))"
  by (simp add: execute_def execute_without_logging_def Let_def
      split: sum.splits option.splits prod.splits)


lemma init_defaults:
  "init None ''rest.faunadb.com'' ''https'' None (PInt 60) None = Inr example_client"
  by (simp add: init_def example_client_def show_int_443)

text \<open>
  When the calls made for logging return, the model with raising collaborators runs as
  \<^const>\<open>execute\<close> does, unless \<^verbatim>\<open>to_json(data)\<close> raises: then nothing is sent
  and that exception leaves the call, with or without logging.
\<close>

lemma log_raising_quiet:
  "\<forall>l line. debug_raises f l line = None \<Longrightarrow>
     log_raising env f c i m w = (Inr (), log env c i m w)"
  by (simp add: log_raising_def log_def then_do_def debug_call_def Let_def split: option.splits)

lemma render_query_quiet:
  "\<forall>v. py_str_raises f v = None \<Longrightarrow>
     render_query env f q = Inr (map (\<lambda>(k, v). k @ ''='' @ py_str env v) q)"
  by (induction q) auto

lemma query_string_quiet:
  "\<forall>v. py_str_raises f v = None \<Longrightarrow>
     query_string_for_logging_raising env f q = Inr (query_string_for_logging env q)"
  by (simp add: query_string_for_logging_raising_def query_string_for_logging_def
      render_query_quiet split: option.splits)

lemma to_json_call_quiet:
  "to_json_raises f v pretty = None \<Longrightarrow> to_json_call env f v pretty = Inr (to_json env v pretty)"
  by (simp add: to_json_call_def)

lemma then_do_Inr: "then_do (Inr x, w) k = k x w"
  by (simp add: then_do_def)

lemma then_do_Inl: "then_do (Inl e, w) k = (Inl e, w)"
  by (simp add: then_do_def)

lemma execute_raising_quiet_sent:
  assumes "\<forall>l line. debug_raises f l line = None"
    and "\<forall>v. py_str_raises f v = None"
    and "\<forall>v. to_json_raises f v True = None"
    and "to_json_raises f dt False = None"
  shows "execute_raising env f c w a p dt q = execute env c w a p dt q"
  using assms
  unfolding execute_raising_def execute_def execute_without_logging_raising_def
    execute_without_logging_def
  by (simp add: log_raising_quiet query_string_quiet to_json_call_quiet then_do_Inr
      then_do_def [of "(session_send _ _ _, _)"] Let_def
      split: option.splits sum.splits prod.splits)

lemma execute_raising_quiet_unsent:
  assumes "\<forall>l line. debug_raises f l line = None"
    and "\<forall>v. py_str_raises f v = None"
    and "\<forall>v. to_json_raises f v True = None"
    and "to_json_raises f dt False = Some e"
  shows "fst (execute_raising env f c w a p dt q) = Inl e
    \<and> sent (snd (execute_raising env f c w a p dt q)) = sent w"
  using assms
  unfolding execute_raising_def execute_without_logging_raising_def
  by (simp add: log_raising_quiet query_string_quiet to_json_call_quiet then_do_Inr
      then_do_Inl to_json_call_def sent_log Let_def split: option.splits)

lemma execute_raising_no_faults:
  "execute_raising env no_faults c w a p dt q = execute env c w a p dt q"
  by (rule execute_raising_quiet_sent) (simp_all add: no_faults_def)

section \<open>Status codes and outcomes\<close>

text \<open>
  C1. For each status code in 400, 401, 403, 404, 405, 500, 503 and every parsed body,
  \<^verbatim>\<open>_handle_response\<close> raises the error of the matching type (BadRequest,
  Unauthorized, PermissionDenied, NotFound, MethodNotAllowed, InternalError,
  UnavailableError), constructed from the parsed body.
\<close>

theorem handle_response_typed_errors:
  "handle_response (r\<lparr>status_code := 400\<rparr>) body = Inl (BadRequest body)
   \<and> handle_response (r\<lparr>status_code := 401\<rparr>) body = Inl (Unauthorized body)
   \<and> handle_response (r\<lparr>status_code := 403\<rparr>) body = Inl (PermissionDenied body)
   \<and> handle_response (r\<lparr>status_code := 404\<rparr>) body = Inl (NotFound body)
   \<and> handle_response (r\<lparr>status_code := 405\<rparr>) body = Inl (MethodNotAllowed body)
   \<and> handle_response (r\<lparr>status_code := 500\<rparr>) body = Inl (InternalError body)
   \<and> handle_response (r\<lparr>status_code := 503\<rparr>) body = Inl (UnavailableError body)"
  by (simp add: handle_response_def codes_defs)

theorem handle_response_typed_errors_witness:
  "handle_response \<lparr>status_code = 404, headers = [], response_text = ''{}''\<rparr> (PDict [])
     = Inl (NotFound (PDict []))"
  using handle_response_typed_errors
    [of "\<lparr>status_code = 404, headers = [], response_text = ''{}''\<rparr>" "PDict []"]
  by simp

text \<open>
  C2. For a status code from 200 to 299 and a parsed body that is a dict holding the key
  \<^verbatim>\<open>resource\<close>, \<^verbatim>\<open>_handle_response\<close> returns the value stored under that
  key and raises nothing.
\<close>

theorem handle_response_success:
  "200 \<le> status_code r \<Longrightarrow> status_code r \<le> 299 \<Longrightarrow> map_of d ''resource'' = Some v \<Longrightarrow>
     handle_response r (PDict d) = Inr v"
  by (simp add: handle_response_def)

theorem handle_response_success_witness:
  "handle_response \<lparr>status_code = 200, headers = [], response_text = []\<rparr>
     (PDict [(''resource'',
              PDict [(''ref'', PRef (Ref ''classes/frogs/123'')),
                     (''data'', PDict [(''name'', PStr ''Scamper'')])])])
   = Inr (PDict [(''ref'', PRef (Ref ''classes/frogs/123'')),
                 (''data'', PDict [(''name'', PStr ''Scamper'')])])"
  using handle_response_success
    [of "\<lparr>status_code = 200, headers = [], response_text = []\<rparr>"
        "[(''resource'',
              PDict [(''ref'', PRef (Ref ''classes/frogs/123'')),
                     (''data'', PDict [(''name'', PStr ''Scamper'')])])]"
        "PDict [(''ref'', PRef (Ref ''classes/frogs/123'')),
                 (''data'', PDict [(''name'', PStr ''Scamper'')])]"]
  by simp

text \<open>
  C3, as the code has it. For a status code from 200 to 299 and a parsed body that is a
  dict without the key \<^verbatim>\<open>resource\<close>, \<^verbatim>\<open>_handle_response\<close> raises Python's
  \<^verbatim>\<open>KeyError\<close> for that key: the lookup is not guarded, and the fault that
  leaves the client is not an error of the library's taxonomy.
\<close>

theorem handle_response_missing_resource:
  "200 \<le> status_code r \<Longrightarrow> status_code r \<le> 299 \<Longrightarrow> map_of d ''resource'' = None \<Longrightarrow>
     handle_response r (PDict d) = Inl (KeyError ''resource'')
     \<and> \<not> taxonomy_error (KeyError ''resource'')"
  by (simp add: handle_response_def)

theorem handle_response_missing_resource_witness:
  "handle_response \<lparr>status_code = 201, headers = [], response_text = []\<rparr>
     (PDict [(''errors'', PList [])]) = Inl (KeyError ''resource'')"
  using handle_response_missing_resource
    [of "\<lparr>status_code = 201, headers = [], response_text = []\<rparr>" "[(''errors'', PList [])]"]
  by simp

text \<open>
  C3 as stated asks for an error of the taxonomy. At status 200 with the empty dict as
  body the error raised is \<^verbatim>\<open>KeyError\<close>, which is none.
\<close>

theorem handle_response_missing_resource_counterexample:
  "handle_response \<lparr>status_code = 200, headers = [], response_text = ''{}''\<rparr> (PDict [])
     = Inl (KeyError ''resource'')
   \<and> \<not> taxonomy_error (KeyError ''resource'')"
  by (simp add: handle_response_def)

text \<open>
  C4, as the code has it. For a status code outside 200 to 299 and outside 400, 401, 403,
  404, 405, 500, 503, \<^verbatim>\<open>_handle_response\<close> raises the generic
  \<^verbatim>\<open>FaunaHTTPError\<close>, constructed from the parsed body alone.
\<close>

theorem handle_response_generic_error:
  "\<not> (200 \<le> status_code r \<and> status_code r \<le> 299) \<Longrightarrow>
   status_code r \<notin> {400, 401, 403, 404, 405, 500, 503} \<Longrightarrow>
     handle_response r body = Inl (FaunaHTTPError body)"
  by (auto simp: handle_response_def codes_defs Let_def)

theorem handle_response_generic_error_witness:
  "handle_response \<lparr>status_code = 502, headers = [], response_text = []\<rparr>
     (PDict [(''errors'', PList [])]) = Inl (FaunaHTTPError (PDict [(''errors'', PList [])]))"
  using handle_response_generic_error
    [of "\<lparr>status_code = 502, headers = [], response_text = []\<rparr>"
        "PDict [(''errors'', PList [])]"]
  by simp

text \<open>
  C4 as stated has the error carry the status code. The statuses 418 and 502 with the
  same body raise the same error value, so the status cannot be read back from it.
\<close>

theorem handle_response_generic_error_counterexample:
  "handle_response \<lparr>status_code = 418, headers = [], response_text = ''{}''\<rparr> (PDict [])
     = handle_response \<lparr>status_code = 502, headers = [], response_text = ''{}''\<rparr> (PDict [])
   \<and> handle_response \<lparr>status_code = 418, headers = [], response_text = ''{}''\<rparr> (PDict [])
     = Inl (FaunaHTTPError (PDict []))"
  by (simp add: handle_response_def codes_defs)

section \<open>Credentials\<close>

text \<open>
  C5. \<^verbatim>\<open>_parse_secret\<close> returns a tuple of two entries as it is; it splits a
  string at its first colon only, so that \<^verbatim>\<open>u:p\<close> gives (u, p) and
  \<^verbatim>\<open>u:p:extra\<close> gives (u, p:extra) when u has no colon; a string without a colon
  gives (u, empty string); and a tuple whose length is not two raises the configuration
  error.
\<close>

theorem parse_secret_shapes:
  "parse_secret (SecretTuple [u, p]) = Inr (u, p)
   \<and> (CHR '':'' \<notin> set u \<longrightarrow> parse_secret (SecretStr (u @ '':'' @ p)) = Inr (u, p))
   \<and> (CHR '':'' \<notin> set u \<longrightarrow>
        parse_secret (SecretStr (u @ '':'' @ p @ '':'' @ extra)) = Inr (u, p @ '':'' @ extra))
   \<and> (CHR '':'' \<notin> set u \<longrightarrow> parse_secret (SecretStr u) = Inr (u, []))
   \<and> (length t \<noteq> 2 \<longrightarrow>
        parse_secret (SecretTuple t)
          = Inl (FaunaError ''Secret tuple must have exactly two entries''))"
  by (simp add: parse_secret_def split1_no_sep split1_first)

theorem parse_secret_shapes_witness:
  "parse_secret (SecretTuple [''u'', ''p'']) = Inr (''u'', ''p'')
   \<and> parse_secret (SecretStr ''u:p'') = Inr (''u'', ''p'')
   \<and> parse_secret (SecretStr ''u:p:extra'') = Inr (''u'', ''p:extra'')
   \<and> parse_secret (SecretStr ''u'') = Inr (''u'', [])
   \<and> parse_secret (SecretTuple [''a'', ''b'', ''c''])
       = Inl (FaunaError ''Secret tuple must have exactly two entries'')"
  using parse_secret_shapes [of "''u''" "''p''" "''extra''" "[''a'', ''b'', ''c'']"]
  by simp

section \<open>The request a call transmits\<close>



text \<open>
  C7, as the code has it. Provided the calls that only the logging branch makes return
  (\<^verbatim>\<open>to_json(..., pretty=True)\<close>, the \<^verbatim>\<open>%s\<close> rendering of the query
  values, and the loggers' \<^verbatim>\<open>debug\<close>), \<^verbatim>\<open>_execute\<close> gives the same
  return value or raised error and hands the same request to the transport whatever the
  client's logger and the debug flag are, for every transport, parser and request encoder.
\<close>

theorem execute_logging_equivalence:
  assumes "\<forall>l line. debug_raises f l line = None"
    and "\<forall>v. py_str_raises f v = None"
    and "\<forall>v. to_json_raises f v True = None"
  shows
  "fst (execute_raising (env\<lparr>FAUNA_DEBUG := d1\<rparr>) f (c\<lparr>logger := l1\<rparr>) w a p dt q)
     = fst (execute_raising (env\<lparr>FAUNA_DEBUG := d2\<rparr>) f (c\<lparr>logger := l2\<rparr>) w a p dt q)
   \<and> sent (snd (execute_raising (env\<lparr>FAUNA_DEBUG := d1\<rparr>) f (c\<lparr>logger := l1\<rparr>) w a p dt q))
     = sent (snd (execute_raising (env\<lparr>FAUNA_DEBUG := d2\<rparr>) f (c\<lparr>logger := l2\<rparr>) w a p dt q))"
proof (cases "to_json_raises f dt False")
  case None
  with assms show ?thesis
    by (simp add: execute_raising_quiet_sent execute_result execute_sent split: sum.splits)
next
  case (Some e)
  with assms show ?thesis
    by (simp add: execute_raising_quiet_unsent)
qed

theorem execute_logging_equivalence_witness:
  "fst (execute_raising (example_env\<lparr>FAUNA_DEBUG := Some ''1''\<rparr>) no_faults
          (example_client\<lparr>logger := Some (Logger ''app'')\<rparr>) empty_world ''GET''
          (Str ''ping'') PNone None)
     = fst (execute_raising (example_env\<lparr>FAUNA_DEBUG := None\<rparr>) no_faults
          (example_client\<lparr>logger := None\<rparr>) empty_world ''GET'' (Str ''ping'') PNone None)
   \<and> fst (execute_raising (example_env\<lparr>FAUNA_DEBUG := None\<rparr>) no_faults
          (example_client\<lparr>logger := None\<rparr>) empty_world ''GET'' (Str ''ping'') PNone None)
       = Inr (PStr ''pong'')
   \<and> logged (snd (execute_raising (example_env\<lparr>FAUNA_DEBUG := Some ''1''\<rparr>) no_faults
          (example_client\<lparr>logger := Some (Logger ''app'')\<rparr>) empty_world ''GET''
          (Str ''ping'') PNone None)) \<noteq> []
   \<and> logged (snd (execute_raising (example_env\<lparr>FAUNA_DEBUG := None\<rparr>) no_faults
          (example_client\<lparr>logger := None\<rparr>) empty_world ''GET'' (Str ''ping'') PNone None))
       = []"
proof -
  have quiet: "\<forall>l line. debug_raises no_faults l line = None"
    "\<forall>v. py_str_raises no_faults v = None"
    "\<forall>v. to_json_raises no_faults v True = None"
    by (simp_all add: no_faults_def)
  show ?thesis
    using execute_logging_equivalence [OF quiet, where env = example_env
        and ?d1.0 = "Some ''1''" and c = example_client and ?l1.0 = "Some (Logger ''app'')"
        and w = empty_world and a = "''GET''" and p = "Str ''ping''" and dt = PNone
        and q = None and ?d2.0 = None and ?l2.0 = None]
    by (simp add: execute_raising_no_faults execute_def execute_without_logging_def
        example_env_def example_client_def empty_world_def debug_logger_def log_def
        handle_response_def Let_def)
qed

text \<open>
  C7 as stated makes the same promise with no proviso. With a caller's logger whose
  \<^verbatim>\<open>debug\<close> raises, and with a response header the pretty encoder raises on, the
  same response gives an exception when logging and the resource when not.
\<close>

theorem execute_logging_counterexample:
  "fst (execute_raising example_env broken_logger
          (example_client\<lparr>logger := Some (Logger ''app'')\<rparr>) empty_world ''GET''
          (Str ''ping'') PNone None) = Inl (ValueError ''closed file'')
   \<and> fst (execute_raising example_env broken_logger
          (example_client\<lparr>logger := None\<rparr>) empty_world ''GET''
          (Str ''ping'') PNone None) = Inr (PStr ''pong'')
   \<and> fst (execute_raising binary_header_env binary_header_faults
          (example_client\<lparr>logger := Some (Logger ''app'')\<rparr>) empty_world ''GET''
          (Str ''ping'') PNone None) = Inl (ValueError ''not utf-8'')
   \<and> fst (execute_raising binary_header_env binary_header_faults
          (example_client\<lparr>logger := None\<rparr>) empty_world ''GET''
          (Str ''ping'') PNone None) = Inr (PStr ''pong'')"
  by (simp add: execute_raising_def execute_without_logging_raising_def example_env_def
      example_client_def empty_world_def debug_logger_def log_raising_def debug_call_def
      then_do_def to_json_call_def query_string_for_logging_raising_def broken_logger_def
      binary_header_faults_def binary_header_env_def handle_response_def Let_def)





section \<open>The constructor's port\<close>

text \<open>
  C10. The constructor succeeds whenever no secret is given, and the client it builds has
  port 443 when no port is given and the scheme is the string \<^verbatim>\<open>https\<close>, port 80
  when no port is given and the scheme is any other string, and the given port otherwise.
\<close>

theorem init_port:
  "(\<exists>c. init lg host sch prt tmo None = Inr c)
   \<and> (init lg host sch prt tmo sec = Inr c \<longrightarrow>
        port c = (case prt of
                    None \<Rightarrow> (if sch = ''https'' then 443 else 80)
                  | Some given \<Rightarrow> given))"
  by (auto simp: init_def Let_def split: option.splits sum.splits)

theorem init_port_witness:
  "port example_client = 443
   \<and> map_sum id port (init None ''localhost'' ''http'' None (PInt 60) None) = Inr 80
   \<and> map_sum id port (init None ''localhost'' ''ftp'' None (PInt 60) None) = Inr 80
   \<and> map_sum id port (init None ''localhost'' ''https'' (Some 8443) (PInt 60) None) = Inr 8443"
proof -
  have "port example_client = 443"
    using init_port [of None "''rest.faunadb.com''" "''https''" None "PInt 60" None
        example_client]
    by (simp add: init_defaults)
  moreover have "map_sum id port (init None ''localhost'' ''http'' None (PInt 60) None) = Inr 80"
    by (simp add: init_def)
  moreover have "map_sum id port (init None ''localhost'' ''ftp'' None (PInt 60) None) = Inr 80"
    by (simp add: init_def)
  moreover have
    "map_sum id port (init None ''localhost'' ''https'' (Some 8443) (PInt 60) None) = Inr 8443"
    by (simp add: init_def)
  ultimately show ?thesis by simp
qed

end
